theory Spec2Isabelle
  imports Complex_Main
begin

section \<open>Python values used by the index calculation engine\<close>

text \<open>
  A Python \<open>str\<close> is a sequence of Unicode code points, so it is modelled as a list of
  natural numbers. \<open>str\<close> turns an ASCII literal into such a sequence.

  The index functions are embedded over the real numbers: their float arithmetic is
  read as exact arithmetic, with unbounded range and no rounding, and the samples they
  read hold \<open>None\<close>, numbers and values that are not numbers. That embedding carries
  the comparison of each loop with its formula.

  Where the float range or the floats \<open>nan\<close> and \<open>inf\<close> decide what the code does (the
  unit converter on a row, \<open>calculate_pig\<close>, and \<open>calculate_hpi\<close> on a standard with
  \<open>Si = 0\<close>), the code is embedded over \<open>pyfloat\<close>: the floats with both infinities and
  \<open>nan\<close>, with overflow at the largest double and without rounding.
\<close>

type_synonym pystr = "nat list"

definition str :: "string \<Rightarrow> pystr" where
  "str s = map of_char s"

text \<open>The exception classes the engine raises or catches.\<close>

datatype exn = ValueError | TypeError | ZeroDivisionError | OverflowError

text \<open>
  Sequencing of a computation that may raise: the first exception aborts what follows.
\<close>

definition and_then :: "exn + 'a \<Rightarrow> ('a \<Rightarrow> exn + 'b) \<Rightarrow> exn + 'b" where
  "and_then r f = (case r of Inl e \<Rightarrow> Inl e | Inr x \<Rightarrow> f x)"

text \<open>
  \<open>except (ValueError, TypeError): continue\<close> around a loop body that updates the loop
  state only in its last statements: a caught exception leaves the state as it was, any
  other exception propagates.
\<close>

definition except_continue :: "exn + 's \<Rightarrow> 's \<Rightarrow> exn + 's" where
  "except_continue r st =
     (case r of
        Inr st' \<Rightarrow> Inr st'
      | Inl ValueError \<Rightarrow> Inr st
      | Inl TypeError \<Rightarrow> Inr st
      | Inl e \<Rightarrow> Inl e)"

text \<open>
  A \<open>for\<close> loop over a list whose body maps the loop state to a new state or raises;
  an exception that leaves the body ends the loop.
\<close>

fun for_each :: "('s \<Rightarrow> 'a \<Rightarrow> exn + 's) \<Rightarrow> 'a list \<Rightarrow> 's \<Rightarrow> exn + 's" where
  "for_each body [] st = Inr st"
| "for_each body (x # xs) st = and_then (body st x) (for_each body xs)"

text \<open>Python's \<open>/\<close> on numbers raises \<open>ZeroDivisionError\<close> on a zero divisor.\<close>

definition py_div :: "real \<Rightarrow> real \<Rightarrow> exn + real" where
  "py_div a b = (if b = 0 then Inl ZeroDivisionError else Inr (a / b))"

text \<open>
  A value stored under a key of a sample: \<open>None\<close>, a value that \<open>float()\<close> turns into
  a number, a value on which \<open>float()\<close> raises \<open>ValueError\<close> (a string that is not a
  number), or one on which it raises \<open>TypeError\<close> (a list, a dict).
\<close>

datatype pyval = PNone | PNum real | PBadStr | PBadObj

fun py_float :: "pyval \<Rightarrow> exn + real" where
  "py_float (PNum x) = Inr x"
| "py_float PBadStr = Inl ValueError"
| "py_float PBadObj = Inl TypeError"
| "py_float PNone = Inl TypeError"

section \<open>Python floats with infinities and nan\<close>

text \<open>
  A float is a finite number, an infinity or \<open>nan\<close>. \<open>float_max\<close> is the largest double,
  and \<open>fl r\<close> is the float that an operation with the exact result \<open>r\<close> returns: \<open>r\<close>
  itself within the range (rounding is left out), an infinity beyond it. The sign of a
  zero is left out too.
\<close>

datatype pyfloat = Fin real | PosInf | NegInf | NaN

definition float_max :: real where
  "float_max = 2 ^ 1024 - 2 ^ 971"

definition fl :: "real \<Rightarrow> pyfloat" where
  "fl r = (if r > float_max then PosInf else if r < - float_max then NegInf else Fin r)"

fun fneg :: "pyfloat \<Rightarrow> pyfloat" where
  "fneg (Fin a) = Fin (- a)"
| "fneg PosInf = NegInf"
| "fneg NegInf = PosInf"
| "fneg NaN = NaN"

text \<open>\<open>+\<close>, \<open>-\<close> and \<open>*\<close> on floats never raise: they overflow to an infinity.\<close>

fun fadd :: "pyfloat \<Rightarrow> pyfloat \<Rightarrow> pyfloat" where
  "fadd (Fin a) (Fin b) = fl (a + b)"
| "fadd NaN _ = NaN"
| "fadd _ NaN = NaN"
| "fadd PosInf NegInf = NaN"
| "fadd NegInf PosInf = NaN"
| "fadd PosInf _ = PosInf"
| "fadd _ PosInf = PosInf"
| "fadd NegInf _ = NegInf"
| "fadd _ NegInf = NegInf"

definition fsub :: "pyfloat \<Rightarrow> pyfloat \<Rightarrow> pyfloat" where
  "fsub a b = fadd a (fneg b)"

fun fmul :: "pyfloat \<Rightarrow> pyfloat \<Rightarrow> pyfloat" where
  "fmul (Fin a) (Fin b) = fl (a * b)"
| "fmul NaN _ = NaN"
| "fmul _ NaN = NaN"
| "fmul (Fin a) i = (if a = 0 then NaN else if a > 0 then i else fneg i)"
| "fmul i (Fin b) = (if b = 0 then NaN else if b > 0 then i else fneg i)"
| "fmul i j = (if i = j then PosInf else NegInf)"

text \<open>
  \<open>/\<close> raises \<open>ZeroDivisionError\<close> on a zero divisor, whatever the dividend, and
  otherwise follows the float rules.
\<close>

fun fdiv :: "pyfloat \<Rightarrow> pyfloat \<Rightarrow> exn + pyfloat" where
  "fdiv a (Fin b) =
     (if b = 0 then Inl ZeroDivisionError
      else Inr (case a of
                  Fin x \<Rightarrow> fl (x / b)
                | NaN \<Rightarrow> NaN
                | i \<Rightarrow> if b > 0 then i else fneg i))"
| "fdiv NaN _ = Inr NaN"
| "fdiv _ NaN = Inr NaN"
| "fdiv (Fin a) _ = Inr (Fin 0)"
| "fdiv _ _ = Inr NaN"

text \<open>
  \<open>x ** 2\<close> raises \<open>OverflowError\<close> when the square of a finite \<open>x\<close> is beyond the
  range; \<open>math.sqrt\<close> raises \<open>ValueError\<close> below 0.
\<close>

fun fpow2 :: "pyfloat \<Rightarrow> exn + pyfloat" where
  "fpow2 (Fin a) = (if a\<^sup>2 > float_max then Inl OverflowError else Inr (Fin (a\<^sup>2)))"
| "fpow2 NaN = Inr NaN"
| "fpow2 _ = Inr PosInf"

fun fsqrt :: "pyfloat \<Rightarrow> exn + pyfloat" where
  "fsqrt (Fin a) = (if a < 0 then Inl ValueError else Inr (Fin (sqrt a)))"
| "fsqrt PosInf = Inr PosInf"
| "fsqrt NegInf = Inl ValueError"
| "fsqrt NaN = Inr NaN"

text \<open>The tests \<open>x > 0\<close> and \<open>x == 0\<close>; every comparison with \<open>nan\<close> but \<open>!=\<close> is false.\<close>

fun fgt0 :: "pyfloat \<Rightarrow> bool" where
  "fgt0 (Fin a) \<longleftrightarrow> a > 0"
| "fgt0 PosInf \<longleftrightarrow> True"
| "fgt0 _ \<longleftrightarrow> False"

fun feq0 :: "pyfloat \<Rightarrow> bool" where
  "feq0 (Fin a) \<longleftrightarrow> a = 0"
| "feq0 _ \<longleftrightarrow> False"

text \<open>
  A raw value under a key of a row or of a sample:
  \<^item> \<open>RawNaN\<close> is the float \<open>nan\<close>;
  \<^item> \<open>Raw v\<close> is one of the values above, a number being turned by \<open>float()\<close> into its
    float;
  \<^item> \<open>RawCoerced f\<close> is any other value that \<open>float()\<close> turns into the float \<open>f\<close> without
    raising: the float \<open>inf\<close>, the strings \<open>'nan'\<close> and \<open>'inf'\<close>, a not-a-number of
    another numeric type;
  \<^item> \<open>RawBigInt\<close> is an \<open>int\<close> beyond the range of a double, on which \<open>float()\<close> raises
    \<open>OverflowError\<close>.
\<close>

datatype rawval = RawNaN | Raw pyval | RawCoerced pyfloat | RawBigInt

fun float_of_raw :: "rawval \<Rightarrow> exn + pyfloat" where
  "float_of_raw RawNaN = Inr NaN"
| "float_of_raw (Raw v) = and_then (py_float v) (\<lambda>x. Inr (fl x))"
| "float_of_raw (RawCoerced f) = Inr f"
| "float_of_raw RawBigInt = Inl OverflowError"

section \<open>Unit converter (utils/unit\_converter.py)\<close>

text \<open>
  \<open>str.strip()\<close> removes the leading and trailing characters for which
  \<open>str.isspace\<close> holds; these are the code points below.
\<close>

definition isspace :: "nat \<Rightarrow> bool" where
  "isspace c \<longleftrightarrow>
     (9 \<le> c \<and> c \<le> 13) \<or> (28 \<le> c \<and> c \<le> 32) \<or> c = 133 \<or> c = 160 \<or> c = 5760 \<or>
     (8192 \<le> c \<and> c \<le> 8202) \<or> c = 8232 \<or> c = 8233 \<or> c = 8239 \<or> c = 8287 \<or>
     c = 12288"

definition strip :: "pystr \<Rightarrow> pystr" where
  "strip s = rev (dropWhile isspace (rev (dropWhile isspace s)))"

text \<open>The module's dictionary of factors; the third key starts with the micro sign U+00B5.\<close>

definition CONVERSION_FACTORS :: "(pystr \<times> real) list" where
  "CONVERSION_FACTORS =
     [(str ''mg/L'', 1000),
      (str ''ppm'', 1000),
      (181 # str ''g/L'', 1),
      (str ''ug/L'', 1),
      (str ''ppb'', 1)]"

definition convert_to_ppb :: "real \<Rightarrow> pystr \<Rightarrow> exn + real" where
  "convert_to_ppb val input_unit =
     (let unit = strip input_unit in
      case map_of CONVERSION_FACTORS unit of
        None \<Rightarrow> Inl ValueError
      | Some conversion_factor \<Rightarrow> Inr (val * conversion_factor))"

text \<open>The assignment \<open>d[key] = v\<close> on a dictionary.\<close>

definition setitem :: "('k \<rightharpoonup> 'v) \<Rightarrow> 'k \<Rightarrow> 'v \<Rightarrow> ('k \<rightharpoonup> 'v)" where
  "setitem d key v = d(key \<mapsto> v)"

text \<open>
  The call \<open>convert_to_ppb(numeric_value, input_unit)\<close> on any float: on a finite number
  it is \<open>convert_to_ppb\<close> with the product brought into the float range; on \<open>nan\<close> and
  the infinities it is the same lookup followed by the float product.
\<close>

definition convert_to_ppb_float :: "pyfloat \<Rightarrow> pystr \<Rightarrow> exn + pyfloat" where
  "convert_to_ppb_float val input_unit =
     (case val of
        Fin x \<Rightarrow> and_then (convert_to_ppb x input_unit) (\<lambda>converted_value. Inr (fl converted_value))
      | _ \<Rightarrow>
          (case map_of CONVERSION_FACTORS (strip input_unit) of
             None \<Rightarrow> Inl ValueError
           | Some conversion_factor \<Rightarrow> Inr (fmul val (Fin conversion_factor))))"

text \<open>
  The body of the loop of \<open>convert_row_to_ppb\<close> over \<open>data_row.items()\<close>. The test for
  not-a-number holds for the float \<open>nan\<close> only (\<open>isinstance(value, float)\<close>). The \<open>try\<close>
  block holds both \<open>float(value)\<close> and the call of \<open>convert_to_ppb\<close>, and its handler
  catches \<open>ValueError\<close> and \<open>TypeError\<close>.
\<close>

definition convert_item ::
  "pystr \<Rightarrow> pystr list \<Rightarrow> (pystr \<rightharpoonup> pyfloat) \<Rightarrow> pystr \<times> rawval \<Rightarrow> exn + (pystr \<rightharpoonup> pyfloat)" where
  "convert_item input_unit exclude_columns converted kv =
     (case kv of (key, v) \<Rightarrow>
        if key \<in> set exclude_columns then Inr converted
        else case v of
          RawNaN \<Rightarrow> Inr converted
        | Raw PNone \<Rightarrow> Inr converted
        | _ \<Rightarrow>
            except_continue
              (and_then (float_of_raw v) (\<lambda>numeric_value.
               and_then (convert_to_ppb_float numeric_value input_unit) (\<lambda>c.
               Inr (setitem converted key c))))
              converted)"

text \<open>
  The row is the dictionary's item list in iteration order (its keys are distinct);
  \<open>exclude_columns\<close> is optional and defaults to the empty list.
\<close>

definition convert_row_to_ppb ::
  "(pystr \<times> rawval) list \<Rightarrow> pystr \<Rightarrow> pystr list option \<Rightarrow> exn + (pystr \<rightharpoonup> pyfloat)" where
  "convert_row_to_ppb data_row input_unit exclude_columns =
     (let exclude_columns = (case exclude_columns of None \<Rightarrow> [] | Some xs \<Rightarrow> xs) in
      for_each (convert_item input_unit exclude_columns) data_row Map.empty)"

definition validate_unit :: "pystr \<Rightarrow> bool" where
  "validate_unit unit \<longleftrightarrow> map_of CONVERSION_FACTORS (strip unit) \<noteq> None"

text \<open>The unit tags the converter accepts: the keys of \<open>CONVERSION_FACTORS\<close>.\<close>

definition recognized_units :: "pystr set" where
  "recognized_units = {str ''mg/L'', str ''ppm'', 181 # str ''g/L'', str ''ug/L'', str ''ppb''}"

text \<open>
  What one item of a row contributes to the converted row when the unit's factor is
  \<open>f\<close>: outside the excluded columns, a value that \<open>float()\<close> coerces and that is not the
  float \<open>nan\<close> gives the float product with \<open>f\<close>; everything else is left out.
\<close>

definition ppb_of :: "real \<Rightarrow> pystr list \<Rightarrow> pystr \<Rightarrow> rawval \<Rightarrow> pyfloat option" where
  "ppb_of f excl key v =
     (if key \<in> set excl then None
      else case v of
        Raw (PNum x) \<Rightarrow> Some (fmul (fl x) (Fin f))
      | RawCoerced g \<Rightarrow> Some (fmul g (Fin f))
      | _ \<Rightarrow> None)"

section \<open>Standards and samples\<close>

text \<open>
  One dictionary of the standards list. \<open>symbol\<close>, \<open>Ii\<close> and \<open>Si\<close> are read with
  \<open>s['...']\<close> and hold a string and two numbers, on which \<open>float()\<close> is the identity;
  \<open>category\<close> is read with \<open>s.get('category')\<close>, which is \<open>None\<close> for a dictionary
  without that key.
\<close>

record standard =
  symbol :: pystr
  category :: "pystr option"
  Ii :: real
  Si :: real

text \<open>A sample: the dictionary \<open>data_row\<close> from parameter symbols to observed values.\<close>

type_synonym sample = "pystr \<rightharpoonup> pyval"

section \<open>Heavy Metal Pollution Index (calculations/hpi.py)\<close>

text \<open>
  The loop state is \<open>(hpi_sum, weight_sum, metals_processed)\<close>. The body skips a symbol
  that is not in the sample or is \<open>None\<close> there; the rest is the \<open>try\<close> block.
\<close>

definition hpi_body :: "sample \<Rightarrow> real \<Rightarrow> real \<times> real \<times> nat \<Rightarrow> standard \<Rightarrow> exn + real \<times> real \<times> nat" where
  "hpi_body data_row total_si st metal =
     (case st of (hpi_sum, weight_sum, metals_processed) \<Rightarrow>
      case data_row (symbol metal) of
        None \<Rightarrow> Inr st
      | Some PNone \<Rightarrow> Inr st
      | Some v \<Rightarrow>
          except_continue
            (and_then (py_float v) (\<lambda>vi.
             let ii = Ii metal; si = Si metal in
             and_then (py_div si total_si) (\<lambda>wi.
             and_then
               (if si - ii \<noteq> 0
                then and_then (py_div (vi - ii) (si - ii)) (\<lambda>q. Inr (q * 100))
                else if si > 0 then and_then (py_div vi si) (\<lambda>q. Inr (q * 100))
                else Inr 0) (\<lambda>qi.
             Inr (hpi_sum + wi * qi, weight_sum + wi, metals_processed + 1)))))
            st)"

definition calculate_hpi :: "sample \<Rightarrow> standard list \<Rightarrow> exn + real" where
  "calculate_hpi data_row standards =
     (let heavy_metals = filter (\<lambda>s. category s = Some (str ''heavy_metal'')) standards in
      if heavy_metals = [] then Inr 0
      else
        let total_si = sum_list (map Si (filter (\<lambda>s. Si s > 0) heavy_metals)) in
        if total_si = 0 then Inr 0
        else
          and_then (for_each (hpi_body data_row total_si) heavy_metals (0, 0, 0))
            (\<lambda>(hpi_sum, weight_sum, metals_processed).
               if weight_sum = 0 then Inr 0 else py_div hpi_sum weight_sum))"

section \<open>The Heavy Metal Pollution Index over floats\<close>

text \<open>
  \<open>calculate_hpi\<close> once more, statement by statement, with the float operations in place
  of the exact ones; the sample holds raw values, so that a reading can be \<open>nan\<close> or an
  infinity, and \<open>Ii\<close> and \<open>Si\<close> enter as their floats.
\<close>

definition hpi_body_float ::
  "(pystr \<rightharpoonup> rawval) \<Rightarrow> pyfloat \<Rightarrow> pyfloat \<times> pyfloat \<times> nat \<Rightarrow> standard \<Rightarrow>
     exn + pyfloat \<times> pyfloat \<times> nat" where
  "hpi_body_float data_row total_si st metal =
     (case st of (hpi_sum, weight_sum, metals_processed) \<Rightarrow>
      case data_row (symbol metal) of
        None \<Rightarrow> Inr st
      | Some (Raw PNone) \<Rightarrow> Inr st
      | Some v \<Rightarrow>
          except_continue
            (and_then (float_of_raw v) (\<lambda>vi.
             let ii = fl (Ii metal); si = fl (Si metal) in
             and_then (fdiv si total_si) (\<lambda>wi.
             and_then
               (if \<not> feq0 (fsub si ii)
                then and_then (fdiv (fsub vi ii) (fsub si ii)) (\<lambda>q. Inr (fmul q (Fin 100)))
                else if fgt0 si then and_then (fdiv vi si) (\<lambda>q. Inr (fmul q (Fin 100)))
                else Inr (Fin 0)) (\<lambda>qi.
             Inr (fadd hpi_sum (fmul wi qi), fadd weight_sum wi, metals_processed + 1)))))
            st)"

definition calculate_hpi_float :: "(pystr \<rightharpoonup> rawval) \<Rightarrow> standard list \<Rightarrow> exn + pyfloat" where
  "calculate_hpi_float data_row standards =
     (let heavy_metals = filter (\<lambda>s. category s = Some (str ''heavy_metal'')) standards in
      if heavy_metals = [] then Inr (Fin 0)
      else
        let total_si =
          foldl fadd (Fin 0) (map (\<lambda>s. fl (Si s)) (filter (\<lambda>s. Si s > 0) heavy_metals)) in
        if feq0 total_si then Inr (Fin 0)
        else
          and_then (for_each (hpi_body_float data_row total_si) heavy_metals (Fin 0, Fin 0, 0))
            (\<lambda>(hpi_sum, weight_sum, metals_processed).
               if feq0 weight_sum then Inr (Fin 0) else fdiv hpi_sum weight_sum))"

section \<open>Water Quality Index (calculations/wqi.py)\<close>

text \<open>The generator \<open>sum(1 / s['Si'] for s in valid_standards)\<close>, one division per step.\<close>

definition inverse_si_step :: "real \<Rightarrow> standard \<Rightarrow> exn + real" where
  "inverse_si_step acc s = and_then (py_div 1 (Si s)) (\<lambda>q. Inr (acc + q))"

definition wqi_body :: "sample \<Rightarrow> real \<Rightarrow> real \<times> real \<times> nat \<Rightarrow> standard \<Rightarrow> exn + real \<times> real \<times> nat" where
  "wqi_body data_row k st param =
     (case st of (wqi_sum, weight_sum, params_processed) \<Rightarrow>
      case data_row (symbol param) of
        None \<Rightarrow> Inr st
      | Some PNone \<Rightarrow> Inr st
      | Some v \<Rightarrow>
          except_continue
            (and_then (py_float v) (\<lambda>vi.
             let ii = Ii param; si = Si param in
             and_then (py_div k si) (\<lambda>wi.
             and_then
               (if si - ii \<noteq> 0
                then and_then (py_div (vi - ii) (si - ii)) (\<lambda>q. Inr (q * 100))
                else if si > 0 then and_then (py_div vi si) (\<lambda>q. Inr (q * 100))
                else Inr 0) (\<lambda>qi.
             Inr (wqi_sum + wi * qi, weight_sum + wi, params_processed + 1)))))
            st)"

definition calculate_wqi :: "sample \<Rightarrow> standard list \<Rightarrow> exn + real" where
  "calculate_wqi data_row standards =
     (if standards = [] then Inr 0
      else
        let valid_standards = filter (\<lambda>s. Si s > 0) standards in
        if valid_standards = [] then Inr 0
        else
          and_then (for_each inverse_si_step valid_standards 0) (\<lambda>sum_inverse_si.
          if sum_inverse_si = 0 then Inr 0
          else
            and_then (py_div 1 sum_inverse_si) (\<lambda>k.
            and_then (for_each (wqi_body data_row k) valid_standards (0, 0, 0))
              (\<lambda>(wqi_sum, weight_sum, params_processed).
                 if weight_sum = 0 then Inr 0 else py_div wqi_sum weight_sum))))"

section \<open>Heavy Metal Evaluation Index (calculations/hei.py)\<close>

text \<open>The loop state is \<open>(hei, metals_processed)\<close>.\<close>

definition hei_body :: "sample \<Rightarrow> real \<times> nat \<Rightarrow> standard \<Rightarrow> exn + real \<times> nat" where
  "hei_body data_row st metal =
     (case st of (hei, metals_processed) \<Rightarrow>
      case data_row (symbol metal) of
        None \<Rightarrow> Inr st
      | Some PNone \<Rightarrow> Inr st
      | Some v \<Rightarrow>
          except_continue
            (and_then (py_float v) (\<lambda>vi.
             let si = Si metal in
             if si > 0
             then and_then (py_div vi si) (\<lambda>q. Inr (hei + q, metals_processed + 1))
             else Inr st))
            st)"

definition calculate_hei :: "sample \<Rightarrow> standard list \<Rightarrow> exn + real" where
  "calculate_hei data_row standards =
     (let heavy_metals = filter (\<lambda>s. category s = Some (str ''heavy_metal'')) standards in
      if heavy_metals = [] then Inr 0
      else
        and_then (for_each (hei_body data_row) heavy_metals (0, 0))
          (\<lambda>(hei, metals_processed). Inr hei))"

definition get_hei_classification :: "real \<Rightarrow> pystr" where
  "get_hei_classification hei =
     (if hei < 10 then str ''Low contamination''
      else if hei < 20 then str ''Medium contamination''
      else str ''High contamination'')"

section \<open>Metal Index (calculations/mi.py)\<close>

text \<open>The loop state is \<open>(mi_sum, count)\<close>.\<close>

definition mi_body :: "sample \<Rightarrow> real \<times> nat \<Rightarrow> standard \<Rightarrow> exn + real \<times> nat" where
  "mi_body data_row st metal =
     (case st of (mi_sum, count) \<Rightarrow>
      case data_row (symbol metal) of
        None \<Rightarrow> Inr st
      | Some PNone \<Rightarrow> Inr st
      | Some v \<Rightarrow>
          except_continue
            (and_then (py_float v) (\<lambda>vi.
             let si = Si metal in
             if si > 0
             then and_then (py_div vi si) (\<lambda>q. Inr (mi_sum + q, count + 1))
             else Inr st))
            st)"

definition calculate_mi :: "sample \<Rightarrow> standard list \<Rightarrow> exn + real" where
  "calculate_mi data_row standards =
     (let all_metals =
        filter (\<lambda>s. category s \<in> set [Some (str ''heavy_metal''), Some (str ''metal'')]) standards in
      if all_metals = [] then Inr 0
      else
        and_then (for_each (mi_body data_row) all_metals (0, 0))
          (\<lambda>(mi_sum, count).
             if count = 0 then Inr 0 else py_div mi_sum (real count)))"

section \<open>Degree of Contamination (calculations/cdeg.py)\<close>

text \<open>The loop state is \<open>(cdeg, metals_processed)\<close>.\<close>

definition cdeg_body :: "sample \<Rightarrow> real \<times> nat \<Rightarrow> standard \<Rightarrow> exn + real \<times> nat" where
  "cdeg_body data_row st metal =
     (case st of (cdeg, metals_processed) \<Rightarrow>
      case data_row (symbol metal) of
        None \<Rightarrow> Inr st
      | Some PNone \<Rightarrow> Inr st
      | Some v \<Rightarrow>
          except_continue
            (and_then (py_float v) (\<lambda>vi.
             let si = Si metal in
             if si > 0
             then and_then (py_div vi si) (\<lambda>q.
                  let cfi = q - 1 in Inr (cdeg + cfi, metals_processed + 1))
             else Inr st))
            st)"

definition calculate_cdeg :: "sample \<Rightarrow> standard list \<Rightarrow> exn + real" where
  "calculate_cdeg data_row standards =
     (let heavy_metals = filter (\<lambda>s. category s = Some (str ''heavy_metal'')) standards in
      if heavy_metals = [] then Inr 0
      else
        and_then (for_each (cdeg_body data_row) heavy_metals (0, 0))
          (\<lambda>(cdeg, metals_processed). Inr cdeg))"

section \<open>Pollution Index of Groundwater (calculations/pig.py)\<close>

text \<open>\<open>except (ValueError, TypeError): return v\<close> around a function body.\<close>

definition except_return :: "exn + 'a \<Rightarrow> 'a \<Rightarrow> exn + 'a" where
  "except_return r v =
     (case r of
        Inr x \<Rightarrow> Inr x
      | Inl ValueError \<Rightarrow> Inr v
      | Inl TypeError \<Rightarrow> Inr v
      | Inl e \<Rightarrow> Inl e)"

text \<open>
  Each argument is a float or \<open>None\<close>. The two squares are taken with \<open>**\<close>, which can
  raise \<open>OverflowError\<close>; the handler does not catch it.
\<close>

definition calculate_pig :: "pyfloat option \<Rightarrow> pyfloat option \<Rightarrow> exn + pyfloat" where
  "calculate_pig hpi hei =
     except_return
       (case (hpi, hei) of
          (Some h, Some e) \<Rightarrow>
            and_then (fdiv h (Fin 100)) (\<lambda>hpi_normalized.
            and_then (fpow2 hpi_normalized) (\<lambda>a.
            and_then (fpow2 e) (\<lambda>b.
            and_then (fsqrt (fadd a b)) (\<lambda>num.
            and_then (fsqrt (Fin 2)) (\<lambda>den.
            fdiv num den)))))
        | _ \<Rightarrow> Inr (Fin 0))
       (Fin 0)"

section \<open>The index formulas as the specification words them\<close>

text \<open>
  The definitions of this section are not translations of code. They state each index
  as a closed formula over the standards list, in the words of the specification, and
  the theorems below compare the loops above with them.

  A standard has a reading in a sample when its symbol is a key of the sample and the
  value there is coercible to a number; \<open>Vi\<close> is that number.
\<close>

definition reading :: "sample \<Rightarrow> standard \<Rightarrow> real option" where
  "reading d s = (case d (symbol s) of Some (PNum x) \<Rightarrow> Some x | _ \<Rightarrow> None)"

definition has_reading :: "sample \<Rightarrow> standard \<Rightarrow> bool" where
  "has_reading d s \<longleftrightarrow> reading d s \<noteq> None"

definition Vi :: "sample \<Rightarrow> standard \<Rightarrow> real" where
  "Vi d s = (case reading d s of Some x \<Rightarrow> x | None \<Rightarrow> 0)"

text \<open>The category filters of the indices.\<close>

definition is_heavy_metal :: "standard \<Rightarrow> bool" where
  "is_heavy_metal s \<longleftrightarrow> category s = Some (str ''heavy_metal'')"

definition is_metal :: "standard \<Rightarrow> bool" where
  "is_metal s \<longleftrightarrow> category s = Some (str ''heavy_metal'') \<or> category s = Some (str ''metal'')"

text \<open>
  The sub-index \<open>Qi\<close> of HPI and the quality rating \<open>qi\<close> of WQI, with the fallback for
  \<open>Si = Ii\<close>.
\<close>

definition sub_index :: "real \<Rightarrow> real \<Rightarrow> real \<Rightarrow> real" where
  "sub_index vi ii si =
     (if si \<noteq> ii then ((vi - ii) / (si - ii)) * 100
      else if si > 0 then (vi / si) * 100 else 0)"

text \<open>
  HPI: \<open>totalSi\<close> is the sum of \<open>Si\<close> over heavy metals with \<open>Si > 0\<close>; the result is 0
  without heavy metals or with \<open>totalSi = 0\<close>; otherwise it is the ratio of the sums of
  \<open>Wi * Qi\<close> and of \<open>Wi = Si / totalSi\<close> over the heavy metals with a reading, and 0 when
  the sum of the weights is 0.
\<close>

definition hpi_formula :: "sample \<Rightarrow> standard list \<Rightarrow> real" where
  "hpi_formula d standards =
     (let heavy = filter is_heavy_metal standards;
          totalSi = (\<Sum>s\<leftarrow>filter (\<lambda>s. Si s > 0) heavy. Si s)
      in if heavy = [] \<or> totalSi = 0 then 0
         else
           let used = filter (has_reading d) heavy;
               W = (\<lambda>s. Si s / totalSi);
               Q = (\<lambda>s. sub_index (Vi d s) (Ii s) (Si s));
               sumWQ = (\<Sum>s\<leftarrow>used. W s * Q s);
               sumW = (\<Sum>s\<leftarrow>used. W s)
           in if sumW = 0 then 0 else sumWQ / sumW)"

text \<open>
  WQI: every standard with \<open>Si > 0\<close> is eligible; \<open>k\<close> is the inverse of the sum of
  \<open>1 / Si\<close> over the eligible standards and \<open>Wi = k / Si\<close>.
\<close>

definition wqi_formula :: "sample \<Rightarrow> standard list \<Rightarrow> real" where
  "wqi_formula d standards =
     (let eligible = filter (\<lambda>s. Si s > 0) standards;
          sumInv = (\<Sum>s\<leftarrow>eligible. 1 / Si s)
      in if standards = [] \<or> eligible = [] \<or> sumInv = 0 then 0
         else
           let k = 1 / sumInv;
               used = filter (has_reading d) eligible;
               W = (\<lambda>s. k / Si s);
               q = (\<lambda>s. sub_index (Vi d s) (Ii s) (Si s));
               sumWq = (\<Sum>s\<leftarrow>used. W s * q s);
               sumW = (\<Sum>s\<leftarrow>used. W s)
           in if sumW = 0 then 0 else sumWq / sumW)"

text \<open>HEI: the sum of \<open>Vi / Si\<close> over heavy metals with \<open>Si > 0\<close> and a reading.\<close>

definition hei_formula :: "sample \<Rightarrow> standard list \<Rightarrow> real" where
  "hei_formula d standards =
     (\<Sum>s\<leftarrow>filter (\<lambda>s. is_heavy_metal s \<and> Si s > 0 \<and> has_reading d s) standards. Vi d s / Si s)"

text \<open>Cdeg: the sum of \<open>Vi / Si - 1\<close> over the same standards.\<close>

definition cdeg_formula :: "sample \<Rightarrow> standard list \<Rightarrow> real" where
  "cdeg_formula d standards =
     (\<Sum>s\<leftarrow>filter (\<lambda>s. is_heavy_metal s \<and> Si s > 0 \<and> has_reading d s) standards.
        Vi d s / Si s - 1)"

text \<open>
  MI: the mean of \<open>Vi / Si\<close> over the standards of category heavy metal or metal with
  \<open>Si > 0\<close> and a reading, and 0 when there is none.
\<close>

definition mi_formula :: "sample \<Rightarrow> standard list \<Rightarrow> real" where
  "mi_formula d standards =
     (let used = filter (\<lambda>s. is_metal s \<and> Si s > 0 \<and> has_reading d s) standards;
          n = length used
      in if n = 0 then 0 else (\<Sum>s\<leftarrow>used. Vi d s / Si s) / real n)"

section \<open>Properties of the unit converter\<close>

lemma map_of_CONVERSION_FACTORS:
  "map_of CONVERSION_FACTORS u =
     (if u = str ''mg/L'' \<or> u = str ''ppm'' then Some 1000
      else if u = 181 # str ''g/L'' \<or> u = str ''ug/L'' \<or> u = str ''ppb'' then Some 1
      else None)"
  by (simp add: CONVERSION_FACTORS_def str_def)

text \<open>
  \<open>strip\<close> returns the core of a string: what is left between whitespace on both
  sides, when the core itself neither starts nor ends with whitespace.
\<close>

lemma strip_surrounded:
  assumes l: "\<forall>c \<in> set l. isspace c" and r: "\<forall>c \<in> set r. isspace c"
    and s: "s = [] \<or> (\<not> isspace (hd s) \<and> \<not> isspace (last s))"
  shows "strip (l @ s @ r) = s"
proof (cases "s = []")
  case True
  have "\<forall>c \<in> set (l @ r). isspace c" using l r by auto
  then have "dropWhile isspace (l @ r) = []" by (simp only: dropWhile_eq_Nil_conv)
  then show ?thesis
    unfolding strip_def True by (simp only: append_Nil rev.simps dropWhile.simps)
next
  case False
  with s have h: "\<not> isspace (hd s)" and t: "\<not> isspace (last s)" by auto
  have "dropWhile isspace (l @ s @ r) = dropWhile isspace (s @ r)"
    using l by simp
  also have "\<dots> = s @ r"
    using False h by (simp add: dropWhile_eq_self_iff)
  finally have front: "dropWhile isspace (l @ s @ r) = s @ r" .
  have "dropWhile isspace (rev r @ rev s) = dropWhile isspace (rev s)"
    by (rule dropWhile_append2) (use r in simp)
  also have "\<dots> = rev s"
    using False t by (simp add: dropWhile_eq_self_iff hd_rev)
  finally show ?thesis using front by (simp add: strip_def)
qed

lemma convert_to_ppb_factor:
  "convert_to_ppb v u =
     (case map_of CONVERSION_FACTORS (strip u) of
        None \<Rightarrow> Inl ValueError
      | Some f \<Rightarrow> Inr (v * f))"
  by (simp add: convert_to_ppb_def)

lemma strip_literals:
  "strip (str ''mg/L'') = str ''mg/L''"
  "strip (str ''ppb'') = str ''ppb''"
  "strip (str ''L'') = str ''L''"
  by (simp_all add: strip_def str_def isspace_def)

text \<open>
  C3. \<open>convert_to_ppb\<close> raises (a \<open>ValueError\<close>, the invalid-unit error) exactly when
  the unit, stripped of surrounding whitespace, is not one of mg/L, ppm, the micro-sign
  form of ug/L, ug/L and ppb. Otherwise it returns the value times 1000 for mg/L and ppm
  and the value itself for the three others. 5 mg/L is 5000, 5 ppb is 5, and the unit L
  raises.
\<close>

theorem convert_to_ppb_units:
  "(isl (convert_to_ppb v u) \<longleftrightarrow> strip u \<notin> recognized_units) \<and>
   (strip u \<notin> recognized_units \<longrightarrow> convert_to_ppb v u = Inl ValueError) \<and>
   (strip u \<in> {str ''mg/L'', str ''ppm''} \<longrightarrow> convert_to_ppb v u = Inr (v * 1000)) \<and>
   (strip u \<in> {181 # str ''g/L'', str ''ug/L'', str ''ppb''} \<longrightarrow> convert_to_ppb v u = Inr v) \<and>
   convert_to_ppb 5 (str ''mg/L'') = Inr 5000 \<and>
   convert_to_ppb 5 (str ''ppb'') = Inr 5 \<and>
   convert_to_ppb v (str ''L'') = Inl ValueError"
  unfolding convert_to_ppb_factor map_of_CONVERSION_FACTORS strip_literals recognized_units_def
  by (simp add: str_def)

theorem convert_to_ppb_units_witness:
  "strip (str '' ppm  '') \<in> {str ''mg/L'', str ''ppm''} \<and>
   convert_to_ppb 7 (str '' ppm  '') = Inr 7000 \<and>
   strip (9 # 181 # str ''g/L'') \<in> {181 # str ''g/L'', str ''ug/L'', str ''ppb''} \<and>
   convert_to_ppb 7 (9 # 181 # str ''g/L'') = Inr 7 \<and>
   strip (str ''mg / L'') \<notin> recognized_units \<and>
   convert_to_ppb 7 (str ''mg / L'') = Inl ValueError"
proof -
  have a: "strip (str '' ppm  '') = str ''ppm''"
    by (simp add: strip_def str_def isspace_def)
  have b: "strip (9 # 181 # str ''g/L'') = 181 # str ''g/L''"
    by (simp add: strip_def str_def isspace_def)
  have c: "strip (str ''mg / L'') = str ''mg / L''"
    by (simp add: strip_def str_def isspace_def)
  have c': "str ''mg / L'' \<notin> recognized_units"
    by (simp add: recognized_units_def str_def)
  show ?thesis
    using convert_to_ppb_units [of 7 "str '' ppm  ''"]
      convert_to_ppb_units [of 7 "9 # 181 # str ''g/L''"]
      convert_to_ppb_units [of 7 "str ''mg / L''"]
    unfolding a b c using c' by simp
qed

lemma convert_to_ppb_float_factor:
  "convert_to_ppb_float g u =
     (case map_of CONVERSION_FACTORS (strip u) of
        None \<Rightarrow> Inl ValueError
      | Some f \<Rightarrow> Inr (fmul g (Fin f)))"
  by (cases g) (simp_all add: convert_to_ppb_float_def convert_to_ppb_factor and_then_def
      split: option.splits)

lemma convert_item_recognized:
  assumes "map_of CONVERSION_FACTORS (strip u) = Some f" and "v \<noteq> RawBigInt"
  shows "convert_item u excl acc (key, v) =
           Inr (case ppb_of f excl key v of None \<Rightarrow> acc | Some c \<Rightarrow> setitem acc key c)"
proof (cases v)
  case RawNaN
  then show ?thesis by (simp add: convert_item_def ppb_of_def)
next
  case (Raw x)
  then show ?thesis using assms(1)
    by (cases x)
      (simp_all add: convert_item_def ppb_of_def and_then_def except_continue_def
        convert_to_ppb_float_factor)
next
  case (RawCoerced g)
  then show ?thesis using assms(1)
    by (simp add: convert_item_def ppb_of_def and_then_def except_continue_def
        convert_to_ppb_float_factor)
next
  case RawBigInt
  with assms(2) show ?thesis by simp
qed

lemma convert_item_unrecognized:
  assumes "map_of CONVERSION_FACTORS (strip u) = None" and "v \<noteq> RawBigInt"
  shows "convert_item u excl acc (key, v) = Inr acc"
proof (cases v)
  case RawNaN
  then show ?thesis by (simp add: convert_item_def)
next
  case (Raw x)
  then show ?thesis using assms(1)
    by (cases x)
      (simp_all add: convert_item_def and_then_def except_continue_def
        convert_to_ppb_float_factor)
next
  case (RawCoerced g)
  then show ?thesis using assms(1)
    by (simp add: convert_item_def and_then_def except_continue_def
        convert_to_ppb_float_factor)
next
  case RawBigInt
  with assms(2) show ?thesis by simp
qed

lemma convert_items_unrecognized:
  assumes "map_of CONVERSION_FACTORS (strip u) = None"
  shows "RawBigInt \<notin> snd ` set row \<Longrightarrow> for_each (convert_item u excl) row acc = Inr acc"
proof (induction row)
  case Nil
  show ?case by simp
next
  case (Cons kv row)
  obtain key v where kv: "kv = (key, v)" by (cases kv)
  from Cons.prems kv have v: "v \<noteq> RawBigInt" and rest: "RawBigInt \<notin> snd ` set row"
    by auto
  show ?case
    by (simp add: kv convert_item_unrecognized [OF assms v] and_then_def Cons.IH [OF rest])
qed

lemma convert_items_recognized:
  assumes f: "map_of CONVERSION_FACTORS (strip u) = Some f"
  shows "distinct (map fst row) \<Longrightarrow> RawBigInt \<notin> snd ` set row \<Longrightarrow>
    \<exists>m. for_each (convert_item u excl) row acc = Inr m \<and>
      (\<forall>key. m key =
         (case map_of row key of
            None \<Rightarrow> acc key
          | Some v \<Rightarrow> (case ppb_of f excl key v of None \<Rightarrow> acc key | Some c \<Rightarrow> Some c)))"
proof (induction row arbitrary: acc)
  case Nil
  show ?case by simp
next
  case (Cons kv row)
  obtain k0 v0 where kv: "kv = (k0, v0)" by (cases kv)
  define acc' where "acc' = (case ppb_of f excl k0 v0 of None \<Rightarrow> acc | Some c \<Rightarrow> setitem acc k0 c)"
  from Cons.prems kv have d: "distinct (map fst row)" and fresh: "map_of row k0 = None"
    and v0: "v0 \<noteq> RawBigInt" and rest: "RawBigInt \<notin> snd ` set row"
    by (auto simp: map_of_eq_None_iff)
  from Cons.IH [OF d rest, of acc'] obtain m where
    m: "for_each (convert_item u excl) row acc' = Inr m" and
    mk: "\<And>key. m key =
         (case map_of row key of
            None \<Rightarrow> acc' key
          | Some v \<Rightarrow> (case ppb_of f excl key v of None \<Rightarrow> acc' key | Some c \<Rightarrow> Some c))"
    by blast
  have run: "for_each (convert_item u excl) (kv # row) acc = Inr m"
    using m by (simp add: kv convert_item_recognized [OF f v0] and_then_def acc'_def)
  have "m key =
         (case map_of (kv # row) key of
            None \<Rightarrow> acc key
          | Some v \<Rightarrow> (case ppb_of f excl key v of None \<Rightarrow> acc key | Some c \<Rightarrow> Some c))" for key
  proof (cases "key = k0")
    case True
    then show ?thesis
      by (simp add: mk fresh kv acc'_def setitem_def split: option.splits)
  next
    case False
    then show ?thesis
      by (simp add: mk kv acc'_def setitem_def split: option.splits)
  qed
  with run show ?case by blast
qed

text \<open>
  On a row that holds no \<open>int\<close> beyond the double range, an unrecognized unit makes
  \<open>convert_row_to_ppb\<close> return the empty dictionary.
\<close>

lemma convert_row_to_ppb_unrecognized:
  assumes "map_of CONVERSION_FACTORS (strip u) = None" and "RawBigInt \<notin> snd ` set row"
  shows "convert_row_to_ppb row u excl = Inr Map.empty"
  by (simp add: convert_row_to_ppb_def convert_items_unrecognized [OF assms])

text \<open>
  C4. With the unrecognized unit L, \<open>convert_to_ppb\<close> raises for the reading 5, but
  \<open>convert_row_to_ppb\<close> on the row \<open>{Pb: 5}\<close> does not raise: the handler around the
  call catches the \<open>ValueError\<close> and the row comes back empty.
\<close>

theorem convert_row_to_ppb_invalid_unit_swallowed:
  "convert_to_ppb 5 (str ''L'') = Inl ValueError \<and>
   convert_row_to_ppb [(str ''Pb'', Raw (PNum 5))] (str ''L'') None = Inr Map.empty"
proof -
  have u: "map_of CONVERSION_FACTORS (strip (str ''L'')) = None"
    by (simp add: strip_literals map_of_CONVERSION_FACTORS) (simp add: str_def)
  have row: "RawBigInt \<notin> snd ` set [(str ''Pb'', Raw (PNum 5))]"
    by simp
  show ?thesis
    by (simp add: convert_to_ppb_factor u convert_row_to_ppb_unrecognized [OF u row])
qed

text \<open>
  With a recognized unit of factor \<open>f\<close>, on a row with distinct keys that holds no \<open>int\<close>
  beyond the double range, \<open>convert_row_to_ppb\<close> returns a dictionary that is decided
  key by key by \<open>ppb_of\<close>.
\<close>

lemma convert_row_to_ppb_key_by_key:
  assumes "distinct (map fst data_row)"
    and "map_of CONVERSION_FACTORS (strip input_unit) = Some f"
    and "RawBigInt \<notin> snd ` set data_row"
  shows "\<exists>converted.
    convert_row_to_ppb data_row input_unit exclude_columns = Inr converted \<and>
    (\<forall>key. converted key =
       (case map_of data_row key of
          None \<Rightarrow> None
        | Some v \<Rightarrow>
            ppb_of f (case exclude_columns of None \<Rightarrow> [] | Some xs \<Rightarrow> xs) key v))"
proof -
  define excl where "excl = (case exclude_columns of None \<Rightarrow> [] | Some xs \<Rightarrow> xs)"
  from convert_items_recognized [OF assms(2) assms(1) assms(3), of excl Map.empty]
  obtain m where run: "for_each (convert_item input_unit excl) data_row Map.empty = Inr m"
    and m: "\<And>key. m key =
      (case map_of data_row key of
         None \<Rightarrow> None
       | Some v \<Rightarrow> (case ppb_of f excl key v of None \<Rightarrow> None | Some c \<Rightarrow> Some c))"
    by auto
  have "convert_row_to_ppb data_row input_unit exclude_columns = Inr m"
    using run by (simp add: convert_row_to_ppb_def excl_def)
  moreover have "m key = (case map_of data_row key of None \<Rightarrow> None | Some v \<Rightarrow> ppb_of f excl key v)"
    for key
    by (simp add: m split: option.splits)
  ultimately show ?thesis unfolding excl_def by blast
qed

text \<open>
  C10. Two rows with the recognized unit ppb. In the first, Pb holds a value that is
  not a float and that \<open>float()\<close> turns into \<open>nan\<close> (the string \<open>'nan'\<close>): the test for
  not-a-number lets it pass and the output maps Pb to \<open>nan\<close>. In the second, Pb holds
  an \<open>int\<close> beyond the double range: \<open>float()\<close> raises \<open>OverflowError\<close>, the handler does
  not catch it, and the call raises without converting Cd.
\<close>

theorem convert_row_to_ppb_nan_kept_overflow_raised:
  "convert_row_to_ppb [(str ''Pb'', RawCoerced NaN), (str ''Cd'', Raw (PNum 5))] (str ''ppb'') None =
     Inr [str ''Pb'' \<mapsto> NaN, str ''Cd'' \<mapsto> Fin 5] \<and>
   convert_row_to_ppb [(str ''Pb'', RawBigInt), (str ''Cd'', Raw (PNum 5))] (str ''ppb'') None =
     Inl OverflowError"
proof -
  have u: "map_of CONVERSION_FACTORS (strip (str ''ppb'')) = Some 1"
    by (simp add: strip_literals map_of_CONVERSION_FACTORS) (simp add: str_def)
  have five: "fl 5 = Fin 5"
    by (simp add: fl_def float_max_def)
  show ?thesis
    by (simp add: convert_row_to_ppb_def convert_item_def and_then_def except_continue_def
        convert_to_ppb_float_factor u setitem_def five)
qed

section \<open>The loops compute the formulas\<close>

lemma hpi_body_eq:
  assumes "t \<noteq> 0"
  shows "hpi_body d t (h, w, n) m =
     Inr (case reading d m of
            None \<Rightarrow> (h, w, n)
          | Some vi \<Rightarrow> (h + Si m / t * sub_index vi (Ii m) (Si m), w + Si m / t, n + 1))"
proof (cases "d (symbol m)")
  case None
  then show ?thesis by (simp add: hpi_body_def reading_def)
next
  case (Some v)
  then show ?thesis using assms
    by (cases v)
      (simp_all add: hpi_body_def reading_def sub_index_def except_continue_def and_then_def
        py_div_def Let_def)
qed

lemma hpi_loop_eq:
  assumes "t \<noteq> 0"
  shows "for_each (hpi_body d t) ms (h, w, n) =
     Inr (h + (\<Sum>s\<leftarrow>filter (has_reading d) ms. Si s / t * sub_index (Vi d s) (Ii s) (Si s)),
          w + (\<Sum>s\<leftarrow>filter (has_reading d) ms. Si s / t),
          n + length (filter (has_reading d) ms))"
proof (induction ms arbitrary: h w n)
  case Nil
  show ?case by simp
next
  case (Cons m ms)
  show ?case
  proof (cases "reading d m")
    case None
    then show ?thesis
      by (simp add: hpi_body_eq [OF assms] and_then_def Cons.IH has_reading_def)
  next
    case (Some vi)
    then show ?thesis
      by (simp add: hpi_body_eq [OF assms] and_then_def Cons.IH has_reading_def Vi_def
          algebra_simps)
  qed
qed

lemma calculate_hpi_eq: "calculate_hpi d standards = Inr (hpi_formula d standards)"
  by (simp add: calculate_hpi_def hpi_formula_def Let_def hpi_loop_eq and_then_def py_div_def
      is_heavy_metal_def [abs_def])


lemma inverse_si_loop_eq:
  assumes "\<forall>s \<in> set ss. Si s \<noteq> 0"
  shows "for_each inverse_si_step ss acc = Inr (acc + (\<Sum>s\<leftarrow>ss. 1 / Si s))"
  using assms
  by (induction ss arbitrary: acc) (simp_all add: inverse_si_step_def py_div_def and_then_def)

lemma wqi_body_eq:
  assumes "Si m \<noteq> 0"
  shows "wqi_body d k (h, w, n) m =
     Inr (case reading d m of
            None \<Rightarrow> (h, w, n)
          | Some vi \<Rightarrow> (h + k / Si m * sub_index vi (Ii m) (Si m), w + k / Si m, n + 1))"
proof (cases "d (symbol m)")
  case None
  then show ?thesis by (simp add: wqi_body_def reading_def)
next
  case (Some v)
  then show ?thesis using assms
    by (cases v)
      (simp_all add: wqi_body_def reading_def sub_index_def except_continue_def and_then_def
        py_div_def Let_def)
qed

lemma wqi_loop_eq:
  assumes "\<forall>s \<in> set ms. Si s \<noteq> 0"
  shows "for_each (wqi_body d k) ms (h, w, n) =
     Inr (h + (\<Sum>s\<leftarrow>filter (has_reading d) ms. k / Si s * sub_index (Vi d s) (Ii s) (Si s)),
          w + (\<Sum>s\<leftarrow>filter (has_reading d) ms. k / Si s),
          n + length (filter (has_reading d) ms))"
  using assms
proof (induction ms arbitrary: h w n)
  case Nil
  show ?case by simp
next
  case (Cons m ms)
  from Cons.prems have m: "Si m \<noteq> 0" and ms: "\<forall>s \<in> set ms. Si s \<noteq> 0" by simp_all
  show ?case
  proof (cases "reading d m")
    case None
    then show ?thesis
      by (simp add: wqi_body_eq [OF m] and_then_def Cons.IH [OF ms] has_reading_def)
  next
    case (Some vi)
    then show ?thesis
      by (simp add: wqi_body_eq [OF m] and_then_def Cons.IH [OF ms] has_reading_def Vi_def
          algebra_simps)
  qed
qed

lemma calculate_wqi_eq: "calculate_wqi d standards = Inr (wqi_formula d standards)"
proof -
  have nz: "\<forall>s \<in> set (filter (\<lambda>s. Si s > 0) standards). Si s \<noteq> 0" by auto
  show ?thesis
    by (simp add: calculate_wqi_def wqi_formula_def Let_def inverse_si_loop_eq [OF nz]
        wqi_loop_eq [OF nz] and_then_def py_div_def)
qed

lemma ratio_body_eq:
  "hei_body d (h, n) m =
     Inr (case reading d m of
            None \<Rightarrow> (h, n)
          | Some vi \<Rightarrow> if Si m > 0 then (h + vi / Si m, n + 1) else (h, n))"
  "mi_body d (h, n) m =
     Inr (case reading d m of
            None \<Rightarrow> (h, n)
          | Some vi \<Rightarrow> if Si m > 0 then (h + vi / Si m, n + 1) else (h, n))"
  "cdeg_body d (h, n) m =
     Inr (case reading d m of
            None \<Rightarrow> (h, n)
          | Some vi \<Rightarrow> if Si m > 0 then (h + (vi / Si m - 1), n + 1) else (h, n))"
proof -
  show "hei_body d (h, n) m =
     Inr (case reading d m of
            None \<Rightarrow> (h, n)
          | Some vi \<Rightarrow> if Si m > 0 then (h + vi / Si m, n + 1) else (h, n))"
  proof (cases "d (symbol m)")
    case None
    then show ?thesis by (simp add: hei_body_def reading_def)
  next
    case (Some v)
    then show ?thesis
      by (cases v)
        (simp_all add: hei_body_def reading_def except_continue_def and_then_def py_div_def
          Let_def)
  qed
  show "mi_body d (h, n) m =
     Inr (case reading d m of
            None \<Rightarrow> (h, n)
          | Some vi \<Rightarrow> if Si m > 0 then (h + vi / Si m, n + 1) else (h, n))"
  proof (cases "d (symbol m)")
    case None
    then show ?thesis by (simp add: mi_body_def reading_def)
  next
    case (Some v)
    then show ?thesis
      by (cases v)
        (simp_all add: mi_body_def reading_def except_continue_def and_then_def py_div_def
          Let_def)
  qed
  show "cdeg_body d (h, n) m =
     Inr (case reading d m of
            None \<Rightarrow> (h, n)
          | Some vi \<Rightarrow> if Si m > 0 then (h + (vi / Si m - 1), n + 1) else (h, n))"
  proof (cases "d (symbol m)")
    case None
    then show ?thesis by (simp add: cdeg_body_def reading_def)
  next
    case (Some v)
    then show ?thesis
      by (cases v)
        (simp_all add: cdeg_body_def reading_def except_continue_def and_then_def py_div_def
          Let_def)
  qed
qed

lemma hei_loop_eq:
  "for_each (hei_body d) ms (h, n) =
     Inr (h + (\<Sum>s\<leftarrow>filter (\<lambda>s. Si s > 0 \<and> has_reading d s) ms. Vi d s / Si s),
          n + length (filter (\<lambda>s. Si s > 0 \<and> has_reading d s) ms))"
proof (induction ms arbitrary: h n)
  case Nil
  show ?case by simp
next
  case (Cons m ms)
  show ?case
    by (cases "reading d m")
      (simp_all add: ratio_body_eq and_then_def Cons.IH has_reading_def Vi_def algebra_simps)
qed

lemma mi_loop_eq:
  "for_each (mi_body d) ms (h, n) =
     Inr (h + (\<Sum>s\<leftarrow>filter (\<lambda>s. Si s > 0 \<and> has_reading d s) ms. Vi d s / Si s),
          n + length (filter (\<lambda>s. Si s > 0 \<and> has_reading d s) ms))"
proof (induction ms arbitrary: h n)
  case Nil
  show ?case by simp
next
  case (Cons m ms)
  show ?case
    by (cases "reading d m")
      (simp_all add: ratio_body_eq and_then_def Cons.IH has_reading_def Vi_def algebra_simps)
qed

lemma cdeg_loop_eq:
  "for_each (cdeg_body d) ms (h, n) =
     Inr (h + (\<Sum>s\<leftarrow>filter (\<lambda>s. Si s > 0 \<and> has_reading d s) ms. Vi d s / Si s - 1),
          n + length (filter (\<lambda>s. Si s > 0 \<and> has_reading d s) ms))"
proof (induction ms arbitrary: h n)
  case Nil
  show ?case by simp
next
  case (Cons m ms)
  show ?case
    by (cases "reading d m")
      (simp_all add: ratio_body_eq and_then_def Cons.IH has_reading_def Vi_def algebra_simps)
qed

lemma filter_conj_Nil: "filter P xs = [] \<Longrightarrow> filter (\<lambda>x. P x \<and> Q x) xs = []"
  by (simp add: filter_empty_conv)

lemma calculate_hei_eq: "calculate_hei d standards = Inr (hei_formula d standards)"
proof (cases "filter is_heavy_metal standards = []")
  case True
  from filter_conj_Nil [OF True]
  have "hei_formula d standards = 0" by (simp add: hei_formula_def)
  with True show ?thesis by (simp add: calculate_hei_def is_heavy_metal_def [abs_def])
next
  case False
  then show ?thesis
    by (simp add: calculate_hei_def hei_formula_def hei_loop_eq and_then_def
        is_heavy_metal_def [abs_def] conj_commute conj_left_commute)
qed

lemma calculate_cdeg_eq: "calculate_cdeg d standards = Inr (cdeg_formula d standards)"
proof (cases "filter is_heavy_metal standards = []")
  case True
  from filter_conj_Nil [OF True]
  have "cdeg_formula d standards = 0" by (simp add: cdeg_formula_def)
  with True show ?thesis by (simp add: calculate_cdeg_def is_heavy_metal_def [abs_def])
next
  case False
  then show ?thesis
    by (simp add: calculate_cdeg_def cdeg_formula_def cdeg_loop_eq and_then_def
        is_heavy_metal_def [abs_def] conj_commute conj_left_commute)
qed

lemma calculate_mi_eq: "calculate_mi d standards = Inr (mi_formula d standards)"
proof (cases "filter is_metal standards = []")
  case True
  from filter_conj_Nil [OF True]
  have "mi_formula d standards = 0" by (simp add: mi_formula_def)
  with True show ?thesis by (simp add: calculate_mi_def is_metal_def [abs_def])
next
  case False
  then show ?thesis
    by (simp add: calculate_mi_def mi_formula_def Let_def mi_loop_eq and_then_def py_div_def
        is_metal_def [abs_def] conj_commute conj_left_commute)
qed

lemma float_max_ge_1: "1 \<le> float_max"
  by (simp add: float_max_def)






text \<open>
  Beyond the range the formula is never returned: \<open>calculate_pig\<close> raises
  \<open>OverflowError\<close> or returns \<open>inf\<close>.
\<close>

lemma calculate_pig_beyond_range:
  assumes "float_max < (h / 100)\<^sup>2 + e\<^sup>2"
  shows "calculate_pig (Some (Fin h)) (Some (Fin e)) = Inl OverflowError \<or>
         calculate_pig (Some (Fin h)) (Some (Fin e)) = Inr PosInf"
proof -
  have pos: "0 < float_max"
    using float_max_ge_1 by simp
  have nn: "\<not> (h / 100)\<^sup>2 + e\<^sup>2 < - float_max"
    using pos zero_le_power2 [of "h / 100"] zero_le_power2 [of e] by linarith
  show ?thesis
    using assms nn pos
    by (cases "fl (h / 100)")
      (auto simp: calculate_pig_def except_return_def and_then_def fl_def split: if_splits)
qed

lemma hpi_formula_drop_zero:
  assumes "Si s = 0"
  shows "hpi_formula d (xs @ s # ys) = hpi_formula d (xs @ ys)"
proof (cases "is_heavy_metal s")
  case False
  then show ?thesis by (simp add: hpi_formula_def)
next
  case True
  let ?t = "\<Sum>s\<leftarrow>filter (\<lambda>s. Si s > 0) (filter is_heavy_metal (xs @ ys)). Si s"
  have t: "(\<Sum>s\<leftarrow>filter (\<lambda>s. Si s > 0) (filter is_heavy_metal (xs @ s # ys)). Si s) = ?t"
    using assms by simp
  show ?thesis
  proof (cases "filter is_heavy_metal (xs @ ys) = []")
    case True
    then have "?t = 0" by simp
    with t show ?thesis by (simp add: hpi_formula_def)
  next
    case False
    with True assms show ?thesis
      unfolding hpi_formula_def t Let_def by simp
  qed
qed

lemma wqi_formula_drop_zero:
  assumes "Si s = 0"
  shows "wqi_formula d (xs @ s # ys) = wqi_formula d (xs @ ys)"
proof (cases "xs @ ys = []")
  case True
  with assms show ?thesis by (simp add: wqi_formula_def)
next
  case False
  with assms show ?thesis by (auto simp: wqi_formula_def Let_def)
qed

lemma ratio_formulas_drop_zero:
  assumes "Si s = 0"
  shows "hei_formula d (xs @ s # ys) = hei_formula d (xs @ ys)"
    and "cdeg_formula d (xs @ s # ys) = cdeg_formula d (xs @ ys)"
    and "mi_formula d (xs @ s # ys) = mi_formula d (xs @ ys)"
  using assms by (simp_all add: hei_formula_def cdeg_formula_def mi_formula_def)

lemma filter_heavy_idem:
  "hpi_formula d (filter is_heavy_metal standards) = hpi_formula d standards"
  by (simp add: hpi_formula_def)

section \<open>The index functions\<close>

text \<open>
  C1. \<open>calculate_hpi\<close> never raises and returns the HPI formula: only the standards of
  category heavy metal count (the result is the one on the list filtered by that
  category); the result is 0 without heavy metals or when \<open>totalSi\<close>, the sum of the
  positive \<open>Si\<close> of the heavy metals, is 0; otherwise it is the sum of \<open>Wi * Qi\<close> divided
  by the sum of \<open>Wi\<close> over the heavy metals with a reading, where \<open>Wi = Si / totalSi\<close> and
  \<open>Qi\<close> is the sub-index with its fallback for \<open>Si = Ii\<close>, and 0 when the weights sum
  to 0.
\<close>

theorem calculate_hpi_formula:
  "calculate_hpi d standards = Inr (hpi_formula d standards) \<and>
   calculate_hpi d standards = calculate_hpi d (filter is_heavy_metal standards)"
proof
  show "calculate_hpi d standards = Inr (hpi_formula d standards)"
    by (rule calculate_hpi_eq)
next
  have "calculate_hpi d (filter is_heavy_metal standards) =
          Inr (hpi_formula d (filter is_heavy_metal standards))"
    by (rule calculate_hpi_eq)
  also have "\<dots> = Inr (hpi_formula d standards)"
    by (simp only: filter_heavy_idem)
  also have "\<dots> = calculate_hpi d standards"
    by (simp only: calculate_hpi_eq)
  finally show "calculate_hpi d standards = calculate_hpi d (filter is_heavy_metal standards)"
    by simp
qed

theorem calculate_hpi_formula_witness:
  "calculate_hpi [str ''Hg'' \<mapsto> PNum 2, str ''Na'' \<mapsto> PNum 7]
     [\<lparr>symbol = str ''Hg'', category = Some (str ''heavy_metal''), Ii = 1, Si = 1\<rparr>,
      \<lparr>symbol = str ''Na'', category = Some (str ''other''), Ii = 0, Si = 5\<rparr>] = Inr 200"
  using calculate_hpi_formula
    [of "[str ''Hg'' \<mapsto> PNum 2, str ''Na'' \<mapsto> PNum 7]"
        "[\<lparr>symbol = str ''Hg'', category = Some (str ''heavy_metal''), Ii = 1, Si = 1\<rparr>,
          \<lparr>symbol = str ''Na'', category = Some (str ''other''), Ii = 0, Si = 5\<rparr>]"]
  by (simp add: hpi_formula_def is_heavy_metal_def has_reading_def reading_def Vi_def
      sub_index_def str_def)

text \<open>
  C2. \<open>calculate_wqi\<close> never raises and returns the WQI formula: every standard with
  \<open>Si > 0\<close> is eligible, whatever its category; the result is 0 for an empty list, for a
  list without eligible standard and when the sum of \<open>1 / Si\<close> is 0; otherwise, with
  \<open>k\<close> the inverse of that sum and \<open>Wi = k / Si\<close>, it is the sum of \<open>Wi * qi\<close> divided by
  the sum of \<open>Wi\<close> over the eligible standards with a reading, and 0 when the weights sum
  to 0. For the standards A and B with \<open>Si = 10\<close> and \<open>Ii = 0\<close> and the sample
  \<open>{A: 10, B: 20}\<close> the result is 150.
\<close>

theorem calculate_wqi_formula:
  "calculate_wqi d standards = Inr (wqi_formula d standards) \<and>
   calculate_wqi [str ''A'' \<mapsto> PNum 10, str ''B'' \<mapsto> PNum 20]
     [\<lparr>symbol = str ''A'', category = ca, Ii = 0, Si = 10\<rparr>,
      \<lparr>symbol = str ''B'', category = cb, Ii = 0, Si = 10\<rparr>] = Inr 150"
  by (simp add: calculate_wqi_eq)
    (simp add: wqi_formula_def has_reading_def reading_def Vi_def sub_index_def str_def)

theorem calculate_wqi_formula_witness:
  "calculate_wqi [str ''A'' \<mapsto> PNum 10, str ''B'' \<mapsto> PBadStr, str ''C'' \<mapsto> PNum 3]
     [\<lparr>symbol = str ''A'', category = None, Ii = 0, Si = 10\<rparr>,
      \<lparr>symbol = str ''B'', category = None, Ii = 0, Si = 10\<rparr>,
      \<lparr>symbol = str ''C'', category = None, Ii = 0, Si = 0\<rparr>] = Inr 100"
  using calculate_wqi_formula
    [of "[str ''A'' \<mapsto> PNum 10, str ''B'' \<mapsto> PBadStr, str ''C'' \<mapsto> PNum 3]"
        "[\<lparr>symbol = str ''A'', category = None, Ii = 0, Si = 10\<rparr>,
          \<lparr>symbol = str ''B'', category = None, Ii = 0, Si = 10\<rparr>,
          \<lparr>symbol = str ''C'', category = None, Ii = 0, Si = 0\<rparr>]"]
  by (simp add: wqi_formula_def has_reading_def reading_def Vi_def sub_index_def str_def)

text \<open>
  C5. \<open>calculate_hei\<close> never raises and returns the sum of \<open>Vi / Si\<close> over the standards
  of category heavy metal with \<open>Si > 0\<close> and a reading; a standard with \<open>Si = 0\<close> is not
  among them, and without any such standard the result is 0. For the heavy metal Pb
  with \<open>Si = 10\<close> and the sample \<open>{Pb: 10}\<close> the result is 1, which
  \<open>get_hei_classification\<close> labels low contamination.
\<close>

theorem calculate_hei_formula:
  "calculate_hei d standards = Inr (hei_formula d standards) \<and>
   (filter (\<lambda>s. is_heavy_metal s \<and> Si s > 0 \<and> has_reading d s) standards = [] \<longrightarrow>
      calculate_hei d standards = Inr 0) \<and>
   calculate_hei [str ''Pb'' \<mapsto> PNum 10]
     [\<lparr>symbol = str ''Pb'', category = Some (str ''heavy_metal''), Ii = i, Si = 10\<rparr>] = Inr 1 \<and>
   get_hei_classification 1 = str ''Low contamination''"
  by (simp add: calculate_hei_eq get_hei_classification_def)
    (simp add: hei_formula_def is_heavy_metal_def has_reading_def reading_def Vi_def)

theorem calculate_hei_formula_witness:
  "filter (\<lambda>s. is_heavy_metal s \<and> Si s > 0 \<and> has_reading [str ''Pb'' \<mapsto> PNum 10, str ''Fe'' \<mapsto> PNum 4] s)
     [\<lparr>symbol = str ''Pb'', category = Some (str ''heavy_metal''), Ii = 0, Si = 0\<rparr>,
      \<lparr>symbol = str ''Fe'', category = Some (str ''metal''), Ii = 0, Si = 2\<rparr>] = [] \<and>
   calculate_hei [str ''Pb'' \<mapsto> PNum 10, str ''Fe'' \<mapsto> PNum 4]
     [\<lparr>symbol = str ''Pb'', category = Some (str ''heavy_metal''), Ii = 0, Si = 0\<rparr>,
      \<lparr>symbol = str ''Fe'', category = Some (str ''metal''), Ii = 0, Si = 2\<rparr>] = Inr 0"
proof -
  let ?d = "[str ''Pb'' \<mapsto> PNum 10, str ''Fe'' \<mapsto> PNum 4]"
  let ?stds = "[\<lparr>symbol = str ''Pb'', category = Some (str ''heavy_metal''), Ii = 0, Si = 0\<rparr>,
      \<lparr>symbol = str ''Fe'', category = Some (str ''metal''), Ii = 0, Si = 2\<rparr>]"
  have none: "filter (\<lambda>s. is_heavy_metal s \<and> Si s > 0 \<and> has_reading ?d s) ?stds = []"
    by (simp add: is_heavy_metal_def str_def)
  from calculate_hei_formula [of ?d ?stds] none
  have "calculate_hei ?d ?stds = Inr 0" by blast
  with none show ?thesis by blast
qed

text \<open>
  C6. \<open>calculate_cdeg\<close> never raises and returns the sum of \<open>Vi / Si - 1\<close> over the
  standards of category heavy metal with \<open>Si > 0\<close> and a reading, which is 0 when there
  is none. The result can be negative: for the heavy metal Pb with \<open>Si = 10\<close> and the
  sample \<open>{Pb: 5}\<close> it is \<open>-0.5\<close>.
\<close>

theorem calculate_cdeg_formula:
  "calculate_cdeg d standards = Inr (cdeg_formula d standards) \<and>
   (filter (\<lambda>s. is_heavy_metal s \<and> Si s > 0 \<and> has_reading d s) standards = [] \<longrightarrow>
      calculate_cdeg d standards = Inr 0) \<and>
   calculate_cdeg [str ''Pb'' \<mapsto> PNum 5]
     [\<lparr>symbol = str ''Pb'', category = Some (str ''heavy_metal''), Ii = i, Si = 10\<rparr>] =
     Inr (- 1 / 2)"
  by (simp add: calculate_cdeg_eq)
    (simp add: cdeg_formula_def is_heavy_metal_def has_reading_def reading_def Vi_def)

theorem calculate_cdeg_formula_witness:
  "filter (\<lambda>s. is_heavy_metal s \<and> Si s > 0 \<and> has_reading [str ''Pb'' \<mapsto> PNone, str ''Cl'' \<mapsto> PNum 4] s)
     [\<lparr>symbol = str ''Pb'', category = Some (str ''heavy_metal''), Ii = 0, Si = 10\<rparr>,
      \<lparr>symbol = str ''Cl'', category = Some (str ''other''), Ii = 0, Si = 2\<rparr>] = [] \<and>
   calculate_cdeg [str ''Pb'' \<mapsto> PNone, str ''Cl'' \<mapsto> PNum 4]
     [\<lparr>symbol = str ''Pb'', category = Some (str ''heavy_metal''), Ii = 0, Si = 10\<rparr>,
      \<lparr>symbol = str ''Cl'', category = Some (str ''other''), Ii = 0, Si = 2\<rparr>] = Inr 0"
proof -
  let ?d = "[str ''Pb'' \<mapsto> PNone, str ''Cl'' \<mapsto> PNum 4]"
  let ?stds = "[\<lparr>symbol = str ''Pb'', category = Some (str ''heavy_metal''), Ii = 0, Si = 10\<rparr>,
      \<lparr>symbol = str ''Cl'', category = Some (str ''other''), Ii = 0, Si = 2\<rparr>]"
  have none: "filter (\<lambda>s. is_heavy_metal s \<and> Si s > 0 \<and> has_reading ?d s) ?stds = []"
    by (simp add: is_heavy_metal_def has_reading_def reading_def str_def)
  from calculate_cdeg_formula [of ?d ?stds] none
  have "calculate_cdeg ?d ?stds = Inr 0" by blast
  with none show ?thesis by blast
qed

text \<open>
  C7. \<open>calculate_mi\<close> never raises and returns the sum of \<open>Vi / Si\<close> divided by \<open>n\<close>, where
  the sum and the count \<open>n\<close> range over the standards of category heavy metal or metal
  with \<open>Si > 0\<close> and a reading; without any such standard the result is 0.
\<close>

theorem calculate_mi_formula:
  "calculate_mi d standards = Inr (mi_formula d standards) \<and>
   (filter (\<lambda>s. is_metal s \<and> Si s > 0 \<and> has_reading d s) standards = [] \<longrightarrow>
      calculate_mi d standards = Inr 0)"
proof (intro conjI impI)
  show run: "calculate_mi d standards = Inr (mi_formula d standards)"
    by (rule calculate_mi_eq)
  assume "filter (\<lambda>s. is_metal s \<and> Si s > 0 \<and> has_reading d s) standards = []"
  then have "mi_formula d standards = 0"
    by (simp add: mi_formula_def)
  with run show "calculate_mi d standards = Inr 0"
    by simp
qed

theorem calculate_mi_formula_witness:
  "calculate_mi [str ''Pb'' \<mapsto> PNum 5, str ''Fe'' \<mapsto> PNum 600, str ''Cl'' \<mapsto> PNum 9]
     [\<lparr>symbol = str ''Pb'', category = Some (str ''heavy_metal''), Ii = 0, Si = 10\<rparr>,
      \<lparr>symbol = str ''Fe'', category = Some (str ''metal''), Ii = 0, Si = 300\<rparr>,
      \<lparr>symbol = str ''Cl'', category = Some (str ''other''), Ii = 0, Si = 3\<rparr>,
      \<lparr>symbol = str ''Zn'', category = Some (str ''metal''), Ii = 0, Si = 5\<rparr>] = Inr (5 / 4) \<and>
   filter (\<lambda>s. is_metal s \<and> Si s > 0 \<and> has_reading [str ''Cl'' \<mapsto> PNum 9] s)
     [\<lparr>symbol = str ''Cl'', category = Some (str ''other''), Ii = 0, Si = 3\<rparr>] = [] \<and>
   calculate_mi [str ''Cl'' \<mapsto> PNum 9]
     [\<lparr>symbol = str ''Cl'', category = Some (str ''other''), Ii = 0, Si = 3\<rparr>] = Inr 0"
proof -
  let ?d = "[str ''Cl'' \<mapsto> PNum 9]"
  let ?stds = "[\<lparr>symbol = str ''Cl'', category = Some (str ''other''), Ii = 0, Si = 3\<rparr>]"
  have none: "filter (\<lambda>s. is_metal s \<and> Si s > 0 \<and> has_reading ?d s) ?stds = []"
    by (simp add: is_metal_def str_def)
  from calculate_mi_formula [of ?d ?stds] none
  have zero: "calculate_mi ?d ?stds = Inr 0" by blast
  have "calculate_mi [str ''Pb'' \<mapsto> PNum 5, str ''Fe'' \<mapsto> PNum 600, str ''Cl'' \<mapsto> PNum 9]
     [\<lparr>symbol = str ''Pb'', category = Some (str ''heavy_metal''), Ii = 0, Si = 10\<rparr>,
      \<lparr>symbol = str ''Fe'', category = Some (str ''metal''), Ii = 0, Si = 300\<rparr>,
      \<lparr>symbol = str ''Cl'', category = Some (str ''other''), Ii = 0, Si = 3\<rparr>,
      \<lparr>symbol = str ''Zn'', category = Some (str ''metal''), Ii = 0, Si = 5\<rparr>] = Inr (5 / 4)"
    using calculate_mi_formula
      [of "[str ''Pb'' \<mapsto> PNum 5, str ''Fe'' \<mapsto> PNum 600, str ''Cl'' \<mapsto> PNum 9]"
        "[\<lparr>symbol = str ''Pb'', category = Some (str ''heavy_metal''), Ii = 0, Si = 10\<rparr>,
          \<lparr>symbol = str ''Fe'', category = Some (str ''metal''), Ii = 0, Si = 300\<rparr>,
          \<lparr>symbol = str ''Cl'', category = Some (str ''other''), Ii = 0, Si = 3\<rparr>,
          \<lparr>symbol = str ''Zn'', category = Some (str ''metal''), Ii = 0, Si = 5\<rparr>]"]
    by (simp add: mi_formula_def is_metal_def has_reading_def reading_def Vi_def str_def)
  with none zero show ?thesis by blast
qed




text \<open>
  In exact arithmetic a standard \<open>s\<close> with \<open>Si = 0\<close> is neutral in all five index
  functions: none of them raises, and each returns the value it returns on the list
  without \<open>s\<close>.
\<close>

lemma zero_limit_standard_neutral_exact:
  assumes "Si s = 0"
  shows "(\<exists>r. calculate_hpi d (xs @ s # ys) = Inr r \<and> calculate_hpi d (xs @ ys) = Inr r) \<and>
         (\<exists>r. calculate_hei d (xs @ s # ys) = Inr r \<and> calculate_hei d (xs @ ys) = Inr r) \<and>
         (\<exists>r. calculate_mi d (xs @ s # ys) = Inr r \<and> calculate_mi d (xs @ ys) = Inr r) \<and>
         (\<exists>r. calculate_cdeg d (xs @ s # ys) = Inr r \<and> calculate_cdeg d (xs @ ys) = Inr r) \<and>
         (\<exists>r. calculate_wqi d (xs @ s # ys) = Inr r \<and> calculate_wqi d (xs @ ys) = Inr r)"
  by (simp add: calculate_hpi_eq calculate_hei_eq calculate_mi_eq calculate_cdeg_eq
      calculate_wqi_eq hpi_formula_drop_zero [OF assms] wqi_formula_drop_zero [OF assms]
      ratio_formulas_drop_zero [OF assms])

text \<open>
  C9. Over floats \<open>calculate_hpi\<close> is not neutral. Its loop has no test \<open>si > 0\<close>: a heavy
  metal with \<open>Si = 0\<close> gets the weight 0 and its sub-index is still computed and
  multiplied by that weight, and \<open>0.0 * qi\<close> is \<open>nan\<close> when \<open>qi\<close> is \<open>nan\<close> or an infinity.
  With the standards Pb (\<open>Si = 10\<close>, \<open>Ii = 0\<close>) and Cd (\<open>Si = 0\<close>, \<open>Ii = 1\<close>) and the sample
  \<open>{Pb: 20, Cd: nan}\<close> the result is \<open>nan\<close>, and it is 200 without the standard Cd. The
  same holds for finite readings when the sub-index overflows: Cd with \<open>Ii = -1e308\<close>
  and the reading \<open>1e308\<close>.
\<close>

theorem calculate_hpi_float_zero_limit_nan:
  "calculate_hpi_float [str ''Pb'' \<mapsto> Raw (PNum 20), str ''Cd'' \<mapsto> RawNaN]
     [\<lparr>symbol = str ''Pb'', category = Some (str ''heavy_metal''), Ii = 0, Si = 10\<rparr>] =
     Inr (Fin 200) \<and>
   calculate_hpi_float [str ''Pb'' \<mapsto> Raw (PNum 20), str ''Cd'' \<mapsto> RawNaN]
     [\<lparr>symbol = str ''Pb'', category = Some (str ''heavy_metal''), Ii = 0, Si = 10\<rparr>,
      \<lparr>symbol = str ''Cd'', category = Some (str ''heavy_metal''), Ii = 1, Si = 0\<rparr>] =
     Inr NaN \<and>
   calculate_hpi_float [str ''Pb'' \<mapsto> Raw (PNum 20), str ''Cd'' \<mapsto> Raw (PNum (10 ^ 308))]
     [\<lparr>symbol = str ''Pb'', category = Some (str ''heavy_metal''), Ii = 0, Si = 10\<rparr>] =
     Inr (Fin 200) \<and>
   calculate_hpi_float [str ''Pb'' \<mapsto> Raw (PNum 20), str ''Cd'' \<mapsto> Raw (PNum (10 ^ 308))]
     [\<lparr>symbol = str ''Pb'', category = Some (str ''heavy_metal''), Ii = 0, Si = 10\<rparr>,
      \<lparr>symbol = str ''Cd'', category = Some (str ''heavy_metal''), Ii = - (10 ^ 308), Si = 0\<rparr>] =
     Inr NaN"
  by (simp add: calculate_hpi_float_def hpi_body_float_def and_then_def except_continue_def
      fsub_def fl_def float_max_def str_def)

end
